theory Spec2Isabelle
  imports Main
begin

section \<open>Values exchanged with the web framework\<close>

text \<open>
  The program is one module, \<^verbatim>\<open>app.py\<close>: seven route handlers and two exception
  handlers registered on a FastAPI application. The handlers are embedded below as
  functions over an explicit world (the log and the outbound HTTP calls made so far).
  What the framework does around them (building responses, validating the request body,
  choosing an exception handler, serialising a return value) is written out next to the
  handler that relies on it, each time with the library call it stands for.
\<close>

text \<open>
  A JSON document, as Python's \<^verbatim>\<open>json\<close> module represents it. Integers are
  unbounded here; which of them the parser can read is decided where the body is read.
  A number that parses to a float is kept as its literal. An object is the parsed
  \<^verbatim>\<open>dict\<close>: its keys are distinct, and \<open>map_of\<close> reads a key.
\<close>

datatype json =
    JNull
  | JBool bool
  | JInt int
  | JReal string
  | JStr string
  | JArr "json list"
  | JObj "(string \<times> json) list"

text \<open>The body of a response: empty, text, or a JSON document.\<close>

datatype content = Empty | Text string | Json json

record response =
  status_code :: int
  media_type :: "string option"
  headers :: "(string \<times> string) list"
  body :: content

text \<open>
  The response classes of \<^verbatim>\<open>fastapi.responses\<close> that the program constructs. A status
  code or header argument that the program leaves out takes the default of the class,
  named here: \<^verbatim>\<open>status_code=200\<close> for \<^verbatim>\<open>Response\<close>, \<^verbatim>\<open>JSONResponse\<close> and
  \<^verbatim>\<open>PlainTextResponse\<close>, \<^verbatim>\<open>status_code=307\<close> for \<^verbatim>\<open>RedirectResponse\<close>.
\<close>

definition Response_default_status_code :: int where
  "Response_default_status_code = 200"

definition RedirectResponse_default_status_code :: int where
  "RedirectResponse_default_status_code = 307"

definition Response :: "int \<Rightarrow> (string \<times> string) list \<Rightarrow> response" where
  "Response sc hs = \<lparr>status_code = sc, media_type = None, headers = hs, body = Empty\<rparr>"

definition PlainTextResponse :: "string \<Rightarrow> int \<Rightarrow> response" where
  "PlainTextResponse txt sc =
     \<lparr>status_code = sc, media_type = Some ''text/plain'', headers = [], body = Text txt\<rparr>"

definition JSONResponse :: "json \<Rightarrow> int \<Rightarrow> (string \<times> string) list \<Rightarrow> response" where
  "JSONResponse j sc hs =
     \<lparr>status_code = sc, media_type = Some ''application/json'', headers = hs, body = Json j\<rparr>"

text \<open>
  \<^verbatim>\<open>urllib.parse.quote(s, safe=...)\<close>: a byte that is a letter, a digit, one of
  \<^verbatim>\<open>_.-~\<close> or listed in \<open>safe\<close> is kept, any other becomes \<^verbatim>\<open>%XX\<close> in upper-case
  hexadecimal.
\<close>

definition always_safe :: string where
  "always_safe =
     ''ABCDEFGHIJKLMNOPQRSTUVWXYZabcdefghijklmnopqrstuvwxyz0123456789_.-~''"

definition hex_digit :: "nat \<Rightarrow> char" where
  "hex_digit n = ''0123456789ABCDEF'' ! (n mod 16)"

definition quote :: "string \<Rightarrow> string \<Rightarrow> string" where
  "quote s safe =
     concat (map (\<lambda>c. if c \<in> set always_safe \<or> c \<in> set safe then [c]
                        else [CHR ''%'', hex_digit (of_char c div 16), hex_digit (of_char c mod 16)]) s)"

text \<open>The characters \<^verbatim>\<open>RedirectResponse\<close> leaves unquoted in its target; 0x27 is the apostrophe.\<close>

definition redirect_safe :: string where
  "redirect_safe = '':/%#?=@[]!$&'' @ [CHR 0x27] @ ''()*+,;''"

definition RedirectResponse :: "string \<Rightarrow> int \<Rightarrow> response" where
  "RedirectResponse url sc =
     \<lparr>status_code = sc, media_type = None,
      headers = [(''location'', quote url redirect_safe)], body = Empty\<rparr>"

section \<open>Requests\<close>

datatype http_method = GET | POST | PUT | DELETE | PATCH | HEAD | OPTIONS

text \<open>
  The body a client sends: no bytes at all; bytes that are in no Unicode encoding;
  text that is not JSON (with the position and message of the decode error); or the
  text of a JSON document, given by the document it denotes.
\<close>

datatype request_body = NoBody | Undecodable | Malformed int string | Document json

record request =
  req_method :: http_method
  req_path :: string
  req_body :: request_body

section \<open>Exceptions\<close>

datatype loc_item = LocStr string | LocInt int

text \<open>One entry of \<^verbatim>\<open>RequestValidationError.errors()\<close>.\<close>

record line_error =
  err_type :: string
  loc :: "loc_item list"
  input :: json
  ctx :: "(string \<times> json) list"

datatype request_validation_error = RequestValidationError (errors: "line_error list")

text \<open>
  \<^verbatim>\<open>HTTPException(status_code, detail, headers)\<close>; \<^verbatim>\<open>headers=None\<close> is the empty
  list. \<^verbatim>\<open>fastapi.HTTPException\<close> is a subclass of Starlette's class of that name.
\<close>

datatype http_exception =
  HTTPException (exc_status_code: int) (detail: string) (exc_headers: "(string \<times> string) list")

text \<open>What \<^verbatim>\<open>httpx.get\<close> can raise, with the message of the exception.\<close>

datatype httpx_error = ConnectTimeout string | ConnectError string | OtherHttpxError string

datatype exn =
    ValidationExc request_validation_error
  | HTTPExc http_exception
  | Exception string
  | HttpxExc httpx_error

section \<open>The world: the log and the network\<close>

datatype level = INFO | WARNING

datatype log_msg = MsgStr string | MsgExc exn

text \<open>The \<^verbatim>\<open>exc_info\<close> argument of a logging call: left out, a boolean, or an exception.\<close>

datatype exc_info = ExcInfoNone | ExcInfoBool bool | ExcInfoExc exn

record log_record =
  lvl :: level
  msg :: log_msg
  exc_inf :: exc_info

record outbound_call =
  url :: string
  timeout :: int

record world =
  log_records :: "log_record list"
  outbound :: "outbound_call list"

text \<open>
  Modelled from the spec: the module \<^verbatim>\<open>logging_\<close> and its \<^verbatim>\<open>logger\<close> are not among
  the sources; the spec describes it as an external collaborator providing a logger
  with \<^verbatim>\<open>.info\<close> and \<^verbatim>\<open>.warning\<close> methods. A call of either method appends one
  record, with the level of the method, the message and the \<^verbatim>\<open>exc_info\<close> argument.
\<close>

definition logger_info :: "log_msg \<Rightarrow> world \<Rightarrow> world" where
  "logger_info m w =
     w\<lparr>log_records := log_records w @ [\<lparr>lvl = INFO, msg = m, exc_inf = ExcInfoNone\<rparr>]\<rparr>"

definition logger_warning :: "log_msg \<Rightarrow> exc_info \<Rightarrow> world \<Rightarrow> world" where
  "logger_warning m ei w =
     w\<lparr>log_records := log_records w @ [\<lparr>lvl = WARNING, msg = m, exc_inf = ei\<rparr>]\<rparr>"

record upstream_response =
  up_status :: int
  up_headers :: "(string \<times> string) list"
  up_body :: string

text \<open>
  The surroundings the program cannot see into:
  \<^item> \<open>net\<close>: what the network answers to a GET of a URL within a timeout (seconds);
  \<^item> \<open>render\<close>: \<^verbatim>\<open>str(ValidationError.from_exception_data(title, line_errors))\<close>,
    pydantic's rendering of a list of errors under a title;
  \<^item> \<open>lax_int\<close>: pydantic's conversion to \<^verbatim>\<open>int\<close> of a value that is not an integer
    (the error type, or the integer it was converted to);
  \<^item> \<open>max_depth\<close>: the deepest nesting of arrays and objects the JSON parser can
    follow before the interpreter raises \<^verbatim>\<open>RecursionError\<close>.
  The first three are total functions: a library call that fails inside itself is
  outside the model.
\<close>

record env =
  net :: "string \<Rightarrow> int \<Rightarrow> httpx_error + upstream_response"
  render :: "string \<Rightarrow> line_error list \<Rightarrow> string"
  lax_int :: "json \<Rightarrow> string + int"
  max_depth :: nat

text \<open>\<^verbatim>\<open>httpx.get(url, timeout=t)\<close>: one outbound call, answered by the network.\<close>

definition httpx_get ::
  "env \<Rightarrow> string \<Rightarrow> int \<Rightarrow> world \<Rightarrow> (httpx_error + upstream_response) \<times> world" where
  "httpx_get e u t w =
     (net e u t, w\<lparr>outbound := outbound w @ [\<lparr>url = u, timeout = t\<rparr>]\<rparr>)"

section \<open>The exception handlers\<close>

text \<open>
  \<^verbatim>\<open>validation_exception_handler\<close>: renders the errors under the request path, logs
  the text as a warning with \<^verbatim>\<open>exc_info=False\<close>, answers 422 with the same text.
\<close>

definition validation_exception_handler ::
  "env \<Rightarrow> request \<Rightarrow> request_validation_error \<Rightarrow> world \<Rightarrow> response \<times> world" where
  "validation_exception_handler e rq exc w =
     (let error_str = render e (req_path rq) (errors exc);
          w1 = logger_warning (MsgStr error_str) (ExcInfoBool False) w
      in (PlainTextResponse error_str 422, w1))"

text \<open>
  \<^verbatim>\<open>fastapi.utils.is_body_allowed_for_status_code\<close> and
  \<^verbatim>\<open>fastapi.exception_handlers.http_exception_handler\<close>, the framework's default
  rendering of an HTTP exception.
\<close>

definition is_body_allowed_for_status_code :: "int \<Rightarrow> bool" where
  "is_body_allowed_for_status_code sc = (\<not> (sc < 200 \<or> sc \<in> {204, 205, 304}))"

definition http_exception_handler :: "request \<Rightarrow> http_exception \<Rightarrow> response" where
  "http_exception_handler rq exc =
     (if \<not> is_body_allowed_for_status_code (exc_status_code exc)
      then Response (exc_status_code exc) (exc_headers exc)
      else JSONResponse (JObj [(''detail'', JStr (detail exc))]) (exc_status_code exc)
             (exc_headers exc))"

text \<open>
  \<^verbatim>\<open>custom_http_exception_handler\<close>: logs the exception as a warning with the
  exception as \<^verbatim>\<open>exc_info\<close>, then answers what the default handler answers.
\<close>

definition custom_http_exception_handler ::
  "request \<Rightarrow> http_exception \<Rightarrow> world \<Rightarrow> response \<times> world" where
  "custom_http_exception_handler rq exc w =
     (let w1 = logger_warning (MsgExc (HTTPExc exc)) (ExcInfoExc (HTTPExc exc)) w
      in (http_exception_handler rq exc, w1))"

section \<open>The route handlers\<close>

text \<open>What a route handler returns: a response object, or a plain Python value.\<close>

datatype py_value = PyNone | PyBool bool | PyResponse response

type_synonym outcome = "(exn + py_value) \<times> world"

definition redirect_to_docs :: "world \<Rightarrow> outcome" where
  "redirect_to_docs w =
     (Inr (PyResponse (RedirectResponse ''/docs'' RedirectResponse_default_status_code)), w)"

definition clickable_log :: "world \<Rightarrow> outcome" where
  "clickable_log w =
     (let w1 = logger_info (MsgStr ''This will show with source code location and timing'') w
      in (Inr (PyResponse (JSONResponse (JObj [(''message'', JStr ''Clickable log!'')])
                             Response_default_status_code [])), w1))"

definition error :: "world \<Rightarrow> outcome" where
  "error w = (Inl (Exception ''This is a test error''), w)"

text \<open>\<^verbatim>\<open>class SomeData(BaseModel): a: int = Field(..., ge=10)\<close>\<close>

record SomeData =
  a :: int

definition error_validation_error :: "SomeData \<Rightarrow> world \<Rightarrow> outcome" where
  "error_validation_error data w = (Inr (PyBool True), w)"

definition error_httpx :: "env \<Rightarrow> world \<Rightarrow> outcome" where
  "error_httpx e w =
     (case httpx_get e ''http://12312312'' 1 w of
        (Inl err, w1) \<Rightarrow> (Inl (HttpxExc err), w1)
      | (Inr r, w1) \<Rightarrow> (Inr PyNone, w1))"

definition error_httpx_connection_refused :: "env \<Rightarrow> world \<Rightarrow> outcome" where
  "error_httpx_connection_refused e w =
     (case httpx_get e ''http://localhost:11111'' 1 w of
        (Inl err, w1) \<Rightarrow> (Inl (HttpxExc err), w1)
      | (Inr r, w1) \<Rightarrow> (Inr PyNone, w1))"

definition error_404 :: "world \<Rightarrow> outcome" where
  "error_404 w = (Inl (HTTPExc (HTTPException 404 ''Not Found'' [])), w)"

section \<open>Reading the request body\<close>

text \<open>
  Python converts a decimal literal of more than \<^verbatim>\<open>sys.int_max_str_digits\<close> digits
  to no integer: it raises \<^verbatim>\<open>ValueError\<close>. The default limit is 4300 digits, so
  the integers that can be read are those below \<open>10 ^ 4300\<close> in absolute value.
\<close>

definition int_max_str_digits :: nat where
  "int_max_str_digits = 4300"

definition digits_ok :: "int \<Rightarrow> bool" where
  "digits_ok n = (\<bar>n\<bar> < 10 ^ int_max_str_digits)"

primrec ints_ok :: "json \<Rightarrow> bool" where
  "ints_ok JNull = True"
| "ints_ok (JBool b) = True"
| "ints_ok (JInt n) = digits_ok n"
| "ints_ok (JReal s) = True"
| "ints_ok (JStr s) = True"
| "ints_ok (JArr xs) = list_all id (map ints_ok xs)"
| "ints_ok (JObj fs) = list_all snd (map (map_prod id ints_ok) fs)"

text \<open>How deep arrays and objects are nested in a document.\<close>

primrec depth :: "json \<Rightarrow> nat" where
  "depth JNull = 0"
| "depth (JBool b) = 0"
| "depth (JInt n) = 0"
| "depth (JReal s) = 0"
| "depth (JStr s) = 0"
| "depth (JArr xs) = Suc (fold max (map depth xs) 0)"
| "depth (JObj fs) = Suc (fold max (map snd (map (map_prod id depth) fs)) 0)"

text \<open>
  The exception that turns every failure of reading the body other than a JSON decode
  error into a 400.
\<close>

definition body_parse_error :: exn where
  "body_parse_error = HTTPExc (HTTPException 400 ''There was an error parsing the body'' [])"

text \<open>
  What the framework does with the body before validation. No bytes give \<^verbatim>\<open>None\<close>.
  Otherwise \<^verbatim>\<open>json.loads\<close> runs on the bytes: \<^verbatim>\<open>JSONDecodeError\<close> is raised again as
  a \<^verbatim>\<open>RequestValidationError\<close> of type \<^verbatim>\<open>json_invalid\<close>; any other exception
  (\<^verbatim>\<open>UnicodeDecodeError\<close> for bytes in no encoding, \<^verbatim>\<open>ValueError\<close> for an integer of
  too many digits, \<^verbatim>\<open>RecursionError\<close> for too deep a nesting) is raised again as
  \<^verbatim>\<open>HTTPException(400)\<close>.
\<close>

definition read_body :: "env \<Rightarrow> request_body \<Rightarrow> exn + json option" where
  "read_body e b =
     (case b of
        NoBody \<Rightarrow> Inr None
      | Undecodable \<Rightarrow> Inl body_parse_error
      | Malformed pos m \<Rightarrow>
          Inl (ValidationExc (RequestValidationError
                 [\<lparr>err_type = ''json_invalid'', loc = [LocStr ''body'', LocInt pos],
                   input = JObj [], ctx = [(''error'', JStr m)]\<rparr>]))
      | Document j \<Rightarrow>
          if ints_ok j \<and> depth j \<le> max_depth e then Inr (Some j)
          else Inl body_parse_error)"

section \<open>Validation of the request body\<close>

text \<open>
  The field \<open>a\<close>: required, an integer, at least 10. An integer is taken as it is;
  any other value goes through pydantic's conversion. The bound is checked on the
  integer obtained.
\<close>

definition body_a :: "loc_item list" where
  "body_a = [LocStr ''body'', LocStr ''a'']"

definition validate_a :: "env \<Rightarrow> json \<Rightarrow> line_error list + int" where
  "validate_a e v =
     (case (case v of JInt n \<Rightarrow> Inr n | _ \<Rightarrow> lax_int e v) of
        Inl t \<Rightarrow> Inl [\<lparr>err_type = t, loc = body_a, input = v, ctx = []\<rparr>]
      | Inr n \<Rightarrow>
          if 10 \<le> n then Inr n
          else Inl [\<lparr>err_type = ''greater_than_equal'', loc = body_a, input = v,
                     ctx = [(''ge'', JInt 10)]\<rparr>])"

text \<open>
  The body parameter \<^verbatim>\<open>data: SomeData\<close>, validated on what was read: the whole body
  is the object. \<^verbatim>\<open>None\<close> (no body, or the document \<^verbatim>\<open>null\<close>) is a missing body; a
  document that is not an object is rejected; keys other than \<open>a\<close> are ignored.
\<close>

definition SomeData_validate :: "env \<Rightarrow> json option \<Rightarrow> line_error list + SomeData" where
  "SomeData_validate e v =
     (case v of
        None \<Rightarrow>
          Inl [\<lparr>err_type = ''missing'', loc = [LocStr ''body''], input = JNull, ctx = []\<rparr>]
      | Some JNull \<Rightarrow>
          Inl [\<lparr>err_type = ''missing'', loc = [LocStr ''body''], input = JNull, ctx = []\<rparr>]
      | Some (JObj fs) \<Rightarrow>
          (case map_of fs ''a'' of
             None \<Rightarrow> Inl [\<lparr>err_type = ''missing'', loc = body_a, input = JObj fs, ctx = []\<rparr>]
           | Some x \<Rightarrow>
               (case validate_a e x of Inl errs \<Rightarrow> Inl errs | Inr n \<Rightarrow> Inr \<lparr>a = n\<rparr>))
      | Some j \<Rightarrow>
          Inl [\<lparr>err_type = ''model_attributes_type'', loc = [LocStr ''body''], input = j,
                ctx = []\<rparr>])"

text \<open>
  The argument of the handler from the request: the body is read, then validated. A
  failed validation is raised as \<^verbatim>\<open>RequestValidationError\<close> with its errors.
\<close>

definition solve_body :: "env \<Rightarrow> request_body \<Rightarrow> exn + SomeData" where
  "solve_body e b =
     (case read_body e b of
        Inl exc \<Rightarrow> Inl exc
      | Inr v \<Rightarrow>
          (case SomeData_validate e v of
             Inl errs \<Rightarrow> Inl (ValidationExc (RequestValidationError errs))
           | Inr data \<Rightarrow> Inr data))"

section \<open>The application\<close>

datatype endpoint =
    E_redirect_to_docs
  | E_clickable_log
  | E_error
  | E_error_validation_error
  | E_error_httpx
  | E_error_httpx_connection_refused
  | E_error_404

text \<open>The route table, in the order of the decorators.\<close>

definition routes :: "((http_method \<times> string) \<times> endpoint) list" where
  "routes =
     [((GET, ''/''), E_redirect_to_docs),
      ((GET, ''/clickable-log''), E_clickable_log),
      ((GET, ''/error''), E_error),
      ((POST, ''/error-validation-error''), E_error_validation_error),
      ((GET, ''/error-httpx-timeout''), E_error_httpx),
      ((GET, ''/error-httpx-connection-refused''), E_error_httpx_connection_refused),
      ((GET, ''/error-404''), E_error_404)]"

definition route :: "http_method \<Rightarrow> string \<Rightarrow> endpoint option" where
  "route m p = map_of routes (m, p)"

text \<open>
  Calling an endpoint. For the one route with a body parameter the framework reads and
  validates the body first, and raises without calling the handler when that fails.
\<close>

definition call_endpoint :: "env \<Rightarrow> request \<Rightarrow> endpoint \<Rightarrow> world \<Rightarrow> outcome" where
  "call_endpoint e rq ep w =
     (case ep of
        E_redirect_to_docs \<Rightarrow> redirect_to_docs w
      | E_clickable_log \<Rightarrow> clickable_log w
      | E_error \<Rightarrow> error w
      | E_error_validation_error \<Rightarrow>
          (case solve_body e (req_body rq) of
             Inl exc \<Rightarrow> (Inl exc, w)
           | Inr data \<Rightarrow> error_validation_error data w)
      | E_error_httpx \<Rightarrow> error_httpx e w
      | E_error_httpx_connection_refused \<Rightarrow> error_httpx_connection_refused e w
      | E_error_404 \<Rightarrow> error_404 w)"

text \<open>
  A returned response is sent as it is; any other value is encoded as JSON in a
  \<^verbatim>\<open>JSONResponse\<close> with the default status code.
\<close>

definition serialize_response :: "py_value \<Rightarrow> response" where
  "serialize_response v =
     (case v of
        PyResponse r \<Rightarrow> r
      | PyBool b \<Rightarrow> JSONResponse (JBool b) Response_default_status_code []
      | PyNone \<Rightarrow> JSONResponse JNull Response_default_status_code [])"

text \<open>
  Exception classes and the method resolution order of a raised exception, up to
  \<^verbatim>\<open>Exception\<close>. The framework looks a handler up by walking that order.
\<close>

datatype exc_class =
    C_RequestValidationError
  | C_ValidationException
  | C_HTTPException
  | C_StarletteHTTPException
  | C_HttpxError
  | C_Exception

fun mro :: "exn \<Rightarrow> exc_class list" where
  "mro (ValidationExc _) = [C_RequestValidationError, C_ValidationException, C_Exception]"
| "mro (HTTPExc _) = [C_HTTPException, C_StarletteHTTPException, C_Exception]"
| "mro (Exception _) = [C_Exception]"
| "mro (HttpxExc _) = [C_HttpxError, C_Exception]"

datatype handler = H_validation_exception_handler | H_custom_http_exception_handler

text \<open>The two \<^verbatim>\<open>@app.exception_handler\<close> registrations.\<close>

definition exception_handlers :: "(exc_class \<times> handler) list" where
  "exception_handlers =
     [(C_RequestValidationError, H_validation_exception_handler),
      (C_StarletteHTTPException, H_custom_http_exception_handler)]"

fun lookup_exception_handler :: "(exc_class \<times> handler) list \<Rightarrow> exc_class list \<Rightarrow> handler option" where
  "lookup_exception_handler hs [] = None"
| "lookup_exception_handler hs (c # cs) =
     (case map_of hs c of Some h \<Rightarrow> Some h | None \<Rightarrow> lookup_exception_handler hs cs)"

text \<open>
  The framework's answer to an exception no handler takes
  (\<^verbatim>\<open>ServerErrorMiddleware.error_response\<close>).
\<close>

definition error_response :: response where
  "error_response = PlainTextResponse ''Internal Server Error'' 500"

text \<open>
  An exception leaving an endpoint: the handler found for its class answers; with no
  handler the framework answers 500. A handler is only ever found for an exception of
  the class it was registered for; the remaining combinations are answered 500 as well.
\<close>

definition handle_exception :: "env \<Rightarrow> request \<Rightarrow> exn \<Rightarrow> world \<Rightarrow> response \<times> world" where
  "handle_exception e rq exc w =
     (case (lookup_exception_handler exception_handlers (mro exc), exc) of
        (Some H_validation_exception_handler, ValidationExc ve) \<Rightarrow>
          validation_exception_handler e rq ve w
      | (Some H_custom_http_exception_handler, HTTPExc he) \<Rightarrow>
          custom_http_exception_handler rq he w
      | _ \<Rightarrow> (error_response, w))"

text \<open>
  One request through the application. \<open>None\<close>: the request matches none of the
  routes declared by the program (it is left to the framework's own routes).
\<close>

definition app :: "env \<Rightarrow> request \<Rightarrow> world \<Rightarrow> (response \<times> world) option" where
  "app e rq w =
     (case route (req_method rq) (req_path rq) of
        None \<Rightarrow> None
      | Some ep \<Rightarrow>
          (case call_endpoint e rq ep w of
             (Inr v, w1) \<Rightarrow> Some (serialize_response v, w1)
           | (Inl exc, w1) \<Rightarrow> Some (handle_exception e rq exc w1)))"

section \<open>Concrete surroundings\<close>

text \<open>
  A network where nothing answers (the closed local port refuses, everything else times
  out), a network where every GET is answered, and the world before the first request.
\<close>

definition offline_env :: env where
  "offline_env =
     \<lparr>net = (\<lambda>u t. if u = ''http://localhost:11111''
                     then Inl (ConnectError ''connection refused'')
                     else Inl (ConnectTimeout ''timed out'')),
      render = (\<lambda>title errs. title),
      lax_int = (\<lambda>j. Inl ''int_type''),
      max_depth = 900\<rparr>"

definition answering_env :: env where
  "answering_env =
     \<lparr>net = (\<lambda>u t. Inr \<lparr>up_status = 200, up_headers = [(''server'', ''upstream'')],
                          up_body = ''hello''\<rparr>),
      render = (\<lambda>title errs. title),
      lax_int = (\<lambda>j. Inl ''int_type''),
      max_depth = 900\<rparr>"

definition empty_world :: world where
  "empty_world = \<lparr>log_records = [], outbound = []\<rparr>"

section \<open>Auxiliary facts\<close>

lemmas resp_defs = Response_def PlainTextResponse_def JSONResponse_def RedirectResponse_def
  Response_default_status_code_def RedirectResponse_default_status_code_def

lemma quote_docs: "quote ''/docs'' redirect_safe = ''/docs''"
  by (simp add: quote_def redirect_safe_def always_safe_def)

lemma route_simps:
  "route GET ''/'' = Some E_redirect_to_docs"
  "route GET ''/clickable-log'' = Some E_clickable_log"
  "route GET ''/error'' = Some E_error"
  "route POST ''/error-validation-error'' = Some E_error_validation_error"
  "route GET ''/error-httpx-timeout'' = Some E_error_httpx"
  "route GET ''/error-httpx-connection-refused'' = Some E_error_httpx_connection_refused"
  "route GET ''/error-404'' = Some E_error_404"
  by (simp_all add: route_def routes_def)

text \<open>Which handler the framework finds for each kind of exception.\<close>

lemma handle_exception_simps:
  "handle_exception e rq (ValidationExc ve) w = validation_exception_handler e rq ve w"
  "handle_exception e rq (HTTPExc he) w = custom_http_exception_handler rq he w"
  "handle_exception e rq (Exception m) w = (error_response, w)"
  "handle_exception e rq (HttpxExc err) w = (error_response, w)"
  by (simp_all add: handle_exception_def exception_handlers_def)

lemma validate_a_ge: "10 \<le> n \<Longrightarrow> validate_a e (JInt n) = Inr n"
  by (simp add: validate_a_def)

text \<open>A failed validation always reports at least one error.\<close>

lemma validate_a_errs: "validate_a e v = Inl errs \<Longrightarrow> errs \<noteq> []"
  by (auto simp: validate_a_def split: sum.splits if_splits)

lemma SomeData_validate_errs: "SomeData_validate e v = Inl errs \<Longrightarrow> errs \<noteq> []"
  by (auto simp: SomeData_validate_def split: json.splits option.splits sum.splits
      dest: validate_a_errs)

lemma read_body_errs:
  "read_body e b = Inl (ValidationExc (RequestValidationError errs)) \<Longrightarrow> errs \<noteq> []"
  by (auto simp: read_body_def body_parse_error_def split: request_body.splits if_splits)

lemma solve_body_errs:
  "solve_body e b = Inl (ValidationExc (RequestValidationError errs)) \<Longrightarrow> errs \<noteq> []"
  by (auto simp: solve_body_def split: sum.splits
      dest: read_body_errs SomeData_validate_errs)

text \<open>The digit limit: 10 is far below it, and \<open>10 ^ 4300\<close> has one digit too many.\<close>

lemma ten_lt_limit: "(10::int) < 10 ^ int_max_str_digits"
proof -
  have "(10::int) ^ 1 < 10 ^ int_max_str_digits"
    by (rule power_strict_increasing) (simp_all add: int_max_str_digits_def)
  then show ?thesis by simp
qed

lemma digits_ok_small: "\<bar>n\<bar> \<le> 10 \<Longrightarrow> digits_ok n"
  using ten_lt_limit by (simp add: digits_ok_def)

lemma digits_ok_limit:
  "\<not> digits_ok (10 ^ int_max_str_digits)"
  "\<not> digits_ok (- (10 ^ int_max_str_digits))"
  by (simp_all add: digits_ok_def)

text \<open>A body that cannot be read is answered 400 by way of the HTTP exception handler.\<close>

lemma unread_body_answered_400:
  assumes "read_body e b = Inl body_parse_error"
  shows "app e \<lparr>req_method = POST, req_path = ''/error-validation-error'', req_body = b\<rparr> w =
           Some (\<lparr>status_code = 400, media_type = Some ''application/json'', headers = [],
                  body = Json (JObj [(''detail'', JStr ''There was an error parsing the body'')])\<rparr>,
                 logger_warning (MsgExc body_parse_error) (ExcInfoExc body_parse_error) w)"
  using assms
  by (simp add: app_def route_simps call_endpoint_def solve_body_def body_parse_error_def
      handle_exception_simps custom_http_exception_handler_def Let_def
      http_exception_handler_def is_body_allowed_for_status_code_def resp_defs)

section \<open>The root route\<close>

text \<open>
  Claim C1, as the program has it: every GET of \<^verbatim>\<open>/\<close> is answered with a redirect whose
  location is \<^verbatim>\<open>/docs\<close> and whose status code is 307, the default of
  \<^verbatim>\<open>RedirectResponse\<close>, since the handler passes no status code. The world is unchanged.
\<close>

theorem root_redirect_is_307:
  "app e \<lparr>req_method = GET, req_path = ''/'', req_body = b\<rparr> w =
     Some (\<lparr>status_code = 307, media_type = None, headers = [(''location'', ''/docs'')],
            body = Empty\<rparr>, w)"
  by (simp add: app_def route_simps call_endpoint_def redirect_to_docs_def
      serialize_response_def resp_defs quote_docs)

text \<open>
  Claim C1 as stated asks for status code 302. On a GET of \<^verbatim>\<open>/\<close> with no body, in the
  empty world, the status code of the answer is not 302.
\<close>

theorem root_redirect_302_counterexample:
  "map_option (status_code \<circ> fst)
     (app offline_env \<lparr>req_method = GET, req_path = ''/'', req_body = NoBody\<rparr> empty_world)
   \<noteq> Some 302"
  by (simp add: app_def route_simps call_endpoint_def redirect_to_docs_def
      serialize_response_def resp_defs)

section \<open>Body validation\<close>

text \<open>
  Claim C2, as the program has it: a POST to \<^verbatim>\<open>/error-validation-error\<close> whose body is
  an object that the framework can read (no integer of more than 4300 digits, nesting
  within the parser's limit) and whose field \<open>a\<close> is an integer of at least 10 passes
  validation, and the answer has status 200 and the JSON body \<^verbatim>\<open>true\<close>. Other keys of
  the object do not matter.
\<close>

theorem read_valid_body_returns_true:
  assumes "ints_ok (JObj fs)" and "depth (JObj fs) \<le> max_depth e"
    and "map_of fs ''a'' = Some (JInt n)" and "10 \<le> n"
  shows "solve_body e (Document (JObj fs)) = Inr \<lparr>a = n\<rparr> \<and>
         app e \<lparr>req_method = POST, req_path = ''/error-validation-error'',
                req_body = Document (JObj fs)\<rparr> w =
           Some (\<lparr>status_code = 200, media_type = Some ''application/json'', headers = [],
                  body = Json (JBool True)\<rparr>, w)"
proof -
  from assms(1,2) have r: "read_body e (Document (JObj fs)) = Inr (Some (JObj fs))"
    by (simp add: read_body_def)
  from assms(3,4) have v: "SomeData_validate e (Some (JObj fs)) = Inr \<lparr>a = n\<rparr>"
    by (simp add: SomeData_validate_def validate_a_ge)
  from r v have s: "solve_body e (Document (JObj fs)) = Inr \<lparr>a = n\<rparr>"
    by (simp add: solve_body_def)
  then show ?thesis
    by (simp add: app_def route_simps call_endpoint_def error_validation_error_def
        serialize_response_def resp_defs)
qed

text \<open>The body \<^verbatim>\<open>{"a": 10}\<close>.\<close>

theorem read_valid_body_returns_true_witness:
  "ints_ok (JObj [(''a'', JInt 10)]) \<and>
   depth (JObj [(''a'', JInt 10)]) \<le> max_depth offline_env \<and>
   map_of [(''a'', JInt 10)] ''a'' = Some (JInt 10) \<and> (10::int) \<le> 10 \<and>
   app offline_env \<lparr>req_method = POST, req_path = ''/error-validation-error'',
                    req_body = Document (JObj [(''a'', JInt 10)])\<rparr> empty_world =
     Some (\<lparr>status_code = 200, media_type = Some ''application/json'', headers = [],
            body = Json (JBool True)\<rparr>, empty_world)"
proof -
  have i: "ints_ok (JObj [(''a'', JInt 10)])"
    by (simp add: digits_ok_small)
  have d: "depth (JObj [(''a'', JInt 10)]) \<le> max_depth offline_env"
    by (simp add: offline_env_def)
  have m: "map_of [(''a'', JInt 10)] ''a'' = Some (JInt 10)"
    by simp
  from read_valid_body_returns_true [OF i d m, of empty_world] i d show ?thesis
    by simp
qed

text \<open>
  Claim C2 as stated covers every integer of at least 10. The body \<^verbatim>\<open>{"a": n}\<close> with
  \<open>n = 10 ^ 4300\<close>, an integer of 4301 digits that is at least 10, is not answered 200:
  reading it fails and the answer has status 400.
\<close>

theorem valid_body_200_counterexample:
  "(10::int) \<le> 10 ^ int_max_str_digits \<and>
   map_option (status_code \<circ> fst)
     (app offline_env \<lparr>req_method = POST, req_path = ''/error-validation-error'',
                      req_body = Document (JObj [(''a'', JInt (10 ^ int_max_str_digits))])\<rparr>
        empty_world) = Some 400"
proof -
  have "read_body offline_env (Document (JObj [(''a'', JInt (10 ^ int_max_str_digits))])) =
          Inl body_parse_error"
    by (simp add: read_body_def digits_ok_limit)
  from unread_body_answered_400 [OF this, of empty_world] ten_lt_limit show ?thesis
    by simp
qed

text \<open>
  Claim C3, as the program has it: a POST to \<^verbatim>\<open>/error-validation-error\<close> on which the
  framework raises a request-validation error (the body is missing, is text that is not
  JSON, or is read and does not fit the schema) never reaches the route handler. The
  validation handler answers: status 422, media type \<^verbatim>\<open>text/plain\<close>, and as body the
  rendering of the errors (of which there is at least one) under the request path. That
  is the whole answer, so no 200 is produced.
\<close>

theorem validation_failure_answered_422:
  assumes "solve_body e b = Inl (ValidationExc (RequestValidationError errs))"
  shows "errs \<noteq> [] \<and>
         app e \<lparr>req_method = POST, req_path = ''/error-validation-error'', req_body = b\<rparr> w =
           Some (\<lparr>status_code = 422, media_type = Some ''text/plain'', headers = [],
                  body = Text (render e ''/error-validation-error'' errs)\<rparr>,
                 logger_warning (MsgStr (render e ''/error-validation-error'' errs))
                   (ExcInfoBool False) w)"
  using assms solve_body_errs [OF assms]
  by (simp add: app_def route_simps call_endpoint_def handle_exception_simps
      validation_exception_handler_def Let_def resp_defs)

text \<open>The body \<^verbatim>\<open>{"a": 5}\<close>: one error, of type \<^verbatim>\<open>greater_than_equal\<close>, and status 422.\<close>

theorem validation_failure_answered_422_witness:
  "solve_body offline_env (Document (JObj [(''a'', JInt 5)])) =
     Inl (ValidationExc (RequestValidationError
       [\<lparr>err_type = ''greater_than_equal'', loc = [LocStr ''body'', LocStr ''a''],
         input = JInt 5, ctx = [(''ge'', JInt 10)]\<rparr>])) \<and>
   map_option (status_code \<circ> fst)
     (app offline_env \<lparr>req_method = POST, req_path = ''/error-validation-error'',
                      req_body = Document (JObj [(''a'', JInt 5)])\<rparr> empty_world) = Some 422"
proof -
  have v: "solve_body offline_env (Document (JObj [(''a'', JInt 5)])) =
     Inl (ValidationExc (RequestValidationError
       [\<lparr>err_type = ''greater_than_equal'', loc = [LocStr ''body'', LocStr ''a''],
         input = JInt 5, ctx = [(''ge'', JInt 10)]\<rparr>]))"
    by (simp add: solve_body_def read_body_def digits_ok_small offline_env_def
        SomeData_validate_def validate_a_def body_a_def)
  from validation_failure_answered_422 [OF v, of empty_world] v show ?thesis
    by simp
qed

text \<open>
  Claim C3 as stated covers every body that does not fit the schema. The body
  \<^verbatim>\<open>{"a": n}\<close> with \<open>n = - (10 ^ 4300)\<close>, an integer below 10, is not answered 422 with
  plain text: reading it fails, and the HTTP exception handler answers 400 with a JSON
  body.
\<close>

theorem invalid_body_422_counterexample:
  "- (10 ^ int_max_str_digits) < (10::int) \<and>
   map_option fst
     (app offline_env \<lparr>req_method = POST, req_path = ''/error-validation-error'',
                      req_body = Document (JObj [(''a'', JInt (- (10 ^ int_max_str_digits)))])\<rparr>
        empty_world) =
     Some \<lparr>status_code = 400, media_type = Some ''application/json'', headers = [],
           body = Json (JObj [(''detail'', JStr ''There was an error parsing the body'')])\<rparr>"
proof -
  have "read_body offline_env
          (Document (JObj [(''a'', JInt (- (10 ^ int_max_str_digits)))])) =
          Inl body_parse_error"
    by (simp add: read_body_def digits_ok_limit)
  from unread_body_answered_400 [OF this, of empty_world] ten_lt_limit show ?thesis
    by simp
qed

section \<open>The exception handlers\<close>

text \<open>
  Claim C4: for every request-validation error, the validation handler appends exactly
  one record to the log, at warning level and with \<^verbatim>\<open>exc_info=False\<close> (no traceback);
  its text is the text of the body of the 422 answer. Nothing else in the world changes.
\<close>

theorem validation_handler_logs_one_warning:
  "(case validation_exception_handler e rq exc w of
      (r, w1) \<Rightarrow>
        status_code r = 422 \<and> media_type r = Some ''text/plain'' \<and>
        body r = Text (render e (req_path rq) (errors exc)) \<and>
        log_records w1 = log_records w @
          [\<lparr>lvl = WARNING, msg = MsgStr (render e (req_path rq) (errors exc)),
            exc_inf = ExcInfoBool False\<rparr>] \<and>
        outbound w1 = outbound w)"
  by (simp add: validation_exception_handler_def Let_def logger_warning_def resp_defs)

text \<open>
  Claim C5: every HTTP exception leaving an endpoint is given to the custom HTTP
  exception handler. The handler appends one record to the log, at warning level, with
  the exception as message and as \<^verbatim>\<open>exc_info\<close>, and its answer is the answer of the
  framework's default handler for that exception, unaltered.
\<close>

theorem custom_handler_logs_and_delegates:
  "handle_exception e rq (HTTPExc exc) w = custom_http_exception_handler rq exc w \<and>
   fst (custom_http_exception_handler rq exc w) = http_exception_handler rq exc \<and>
   log_records (snd (custom_http_exception_handler rq exc w)) = log_records w @
     [\<lparr>lvl = WARNING, msg = MsgExc (HTTPExc exc), exc_inf = ExcInfoExc (HTTPExc exc)\<rparr>] \<and>
   outbound (snd (custom_http_exception_handler rq exc w)) = outbound w"
  by (simp add: handle_exception_simps custom_http_exception_handler_def Let_def
      logger_warning_def)

section \<open>The routes that raise\<close>

text \<open>
  Claim C6: the handler of \<^verbatim>\<open>/error-404\<close> raises an HTTP exception with status code
  404 and detail \<^verbatim>\<open>Not Found\<close>; every GET of that path is answered with status 404 and
  the JSON body \<^verbatim>\<open>{"detail": "Not Found"}\<close>, after the warning of the custom handler.
\<close>

theorem error_404_answered_404:
  "fst (error_404 w) = Inl (HTTPExc (HTTPException 404 ''Not Found'' [])) \<and>
   app e \<lparr>req_method = GET, req_path = ''/error-404'', req_body = b\<rparr> w =
     Some (\<lparr>status_code = 404, media_type = Some ''application/json'', headers = [],
            body = Json (JObj [(''detail'', JStr ''Not Found'')])\<rparr>,
           logger_warning (MsgExc (HTTPExc (HTTPException 404 ''Not Found'' [])))
             (ExcInfoExc (HTTPExc (HTTPException 404 ''Not Found'' []))) w)"
  by (simp add: app_def route_simps call_endpoint_def error_404_def handle_exception_simps
      custom_http_exception_handler_def Let_def http_exception_handler_def
      is_body_allowed_for_status_code_def resp_defs)

text \<open>
  Claim C7: the handler of \<^verbatim>\<open>/error\<close> never returns a value: it raises a plain
  \<^verbatim>\<open>Exception\<close>. Neither registered handler is found for it, and every GET of that path
  is answered by the framework with status 500. The world is unchanged.
\<close>

theorem error_answered_500:
  "error w = (Inl (Exception ''This is a test error''), w) \<and>
   lookup_exception_handler exception_handlers (mro (Exception ''This is a test error'')) = None \<and>
   app e \<lparr>req_method = GET, req_path = ''/error'', req_body = b\<rparr> w =
     Some (\<lparr>status_code = 500, media_type = Some ''text/plain'', headers = [],
            body = Text ''Internal Server Error''\<rparr>, w)"
  by (simp add: app_def route_simps call_endpoint_def error_def handle_exception_simps
      exception_handlers_def error_response_def resp_defs)

section \<open>The logging route\<close>

text \<open>
  Claim C8: every GET of \<^verbatim>\<open>/clickable-log\<close> appends one record at info level to the log
  and is answered with status 200 and the JSON body \<^verbatim>\<open>{"message": "Clickable log!"}\<close>.
\<close>

theorem clickable_log_answered_200:
  "app e \<lparr>req_method = GET, req_path = ''/clickable-log'', req_body = b\<rparr> w =
     Some (\<lparr>status_code = 200, media_type = Some ''application/json'', headers = [],
            body = Json (JObj [(''message'', JStr ''Clickable log!'')])\<rparr>,
           w\<lparr>log_records := log_records w @
               [\<lparr>lvl = INFO,
                 msg = MsgStr ''This will show with source code location and timing'',
                 exc_inf = ExcInfoNone\<rparr>]\<rparr>)"
  by (simp add: app_def route_simps call_endpoint_def clickable_log_def Let_def
      logger_info_def serialize_response_def resp_defs)

section \<open>The routes that call out\<close>

text \<open>
  Claim C9: each of the two handlers makes exactly one outbound GET, to
  \<^verbatim>\<open>http://12312312\<close> and to \<^verbatim>\<open>http://localhost:11111\<close>, with a timeout of 1 second, and
  changes nothing else. Whatever error that call raises leaves the handler as it is.
\<close>

theorem httpx_errors_propagate:
  "snd (error_httpx e w) =
     w\<lparr>outbound := outbound w @ [\<lparr>url = ''http://12312312'', timeout = 1\<rparr>]\<rparr> \<and>
   snd (error_httpx_connection_refused e w) =
     w\<lparr>outbound := outbound w @ [\<lparr>url = ''http://localhost:11111'', timeout = 1\<rparr>]\<rparr> \<and>
   (net e ''http://12312312'' 1 = Inl err \<longrightarrow>
      fst (error_httpx e w) = Inl (HttpxExc err)) \<and>
   (net e ''http://localhost:11111'' 1 = Inl err' \<longrightarrow>
      fst (error_httpx_connection_refused e w) = Inl (HttpxExc err'))"
  by (simp add: error_httpx_def error_httpx_connection_refused_def httpx_get_def
      split: sum.splits)

text \<open>With nothing answering: a timeout from the first, a refused connection from the second.\<close>

theorem httpx_errors_propagate_witness:
  "net offline_env ''http://12312312'' 1 = Inl (ConnectTimeout ''timed out'') \<and>
   net offline_env ''http://localhost:11111'' 1 = Inl (ConnectError ''connection refused'') \<and>
   error_httpx offline_env empty_world =
     (Inl (HttpxExc (ConnectTimeout ''timed out'')),
      \<lparr>log_records = [], outbound = [\<lparr>url = ''http://12312312'', timeout = 1\<rparr>]\<rparr>) \<and>
   error_httpx_connection_refused offline_env empty_world =
     (Inl (HttpxExc (ConnectError ''connection refused'')),
      \<lparr>log_records = [], outbound = [\<lparr>url = ''http://localhost:11111'', timeout = 1\<rparr>]\<rparr>)"
proof -
  have n1: "net offline_env ''http://12312312'' 1 = Inl (ConnectTimeout ''timed out'')"
    by (simp add: offline_env_def)
  have n2: "net offline_env ''http://localhost:11111'' 1 = Inl (ConnectError ''connection refused'')"
    by (simp add: offline_env_def)
  from httpx_errors_propagate [of offline_env empty_world "ConnectTimeout ''timed out''"
      "ConnectError ''connection refused''"] n1 n2
  show ?thesis
    by (simp add: prod_eq_iff empty_world_def)
qed

text \<open>
  Claim C10: when the outbound GET is answered, the handler drops the answer and returns
  \<^verbatim>\<open>None\<close>; the client gets status 200 with the JSON body \<^verbatim>\<open>null\<close>, whatever the
  status, headers and body of the upstream answer were.
\<close>

theorem httpx_success_returns_none:
  "(net e ''http://12312312'' 1 = Inr r \<longrightarrow>
      app e \<lparr>req_method = GET, req_path = ''/error-httpx-timeout'', req_body = b\<rparr> w =
        Some (\<lparr>status_code = 200, media_type = Some ''application/json'', headers = [],
               body = Json JNull\<rparr>,
              w\<lparr>outbound := outbound w @ [\<lparr>url = ''http://12312312'', timeout = 1\<rparr>]\<rparr>)) \<and>
   (net e ''http://localhost:11111'' 1 = Inr r' \<longrightarrow>
      app e \<lparr>req_method = GET, req_path = ''/error-httpx-connection-refused'', req_body = b\<rparr> w =
        Some (\<lparr>status_code = 200, media_type = Some ''application/json'', headers = [],
               body = Json JNull\<rparr>,
              w\<lparr>outbound := outbound w @ [\<lparr>url = ''http://localhost:11111'', timeout = 1\<rparr>]\<rparr>))"
  by (simp add: app_def route_simps call_endpoint_def error_httpx_def
      error_httpx_connection_refused_def httpx_get_def serialize_response_def resp_defs)

text \<open>With every GET answered by a 200 carrying a header and the body \<^verbatim>\<open>hello\<close>.\<close>

theorem httpx_success_returns_none_witness:
  "net answering_env ''http://12312312'' 1 =
     Inr \<lparr>up_status = 200, up_headers = [(''server'', ''upstream'')], up_body = ''hello''\<rparr> \<and>
   net answering_env ''http://localhost:11111'' 1 =
     Inr \<lparr>up_status = 200, up_headers = [(''server'', ''upstream'')], up_body = ''hello''\<rparr> \<and>
   app answering_env \<lparr>req_method = GET, req_path = ''/error-httpx-timeout'', req_body = NoBody\<rparr>
       empty_world =
     Some (\<lparr>status_code = 200, media_type = Some ''application/json'', headers = [],
            body = Json JNull\<rparr>,
           \<lparr>log_records = [], outbound = [\<lparr>url = ''http://12312312'', timeout = 1\<rparr>]\<rparr>) \<and>
   app answering_env \<lparr>req_method = GET, req_path = ''/error-httpx-connection-refused'',
                      req_body = NoBody\<rparr> empty_world =
     Some (\<lparr>status_code = 200, media_type = Some ''application/json'', headers = [],
            body = Json JNull\<rparr>,
           \<lparr>log_records = [], outbound = [\<lparr>url = ''http://localhost:11111'', timeout = 1\<rparr>]\<rparr>)"
proof -
  let ?r = "\<lparr>up_status = 200, up_headers = [(''server'', ''upstream'')], up_body = ''hello''\<rparr>"
  have n1: "net answering_env ''http://12312312'' 1 = Inr ?r"
    by (simp add: answering_env_def)
  have n2: "net answering_env ''http://localhost:11111'' 1 = Inr ?r"
    by (simp add: answering_env_def)
  from httpx_success_returns_none [of answering_env ?r NoBody empty_world ?r] n1 n2
  show ?thesis
    by (simp add: empty_world_def)
qed

end
